theory Spec2Isabelle
  imports Complex_Main
begin

section \<open>The MAP unigram estimator of \<^verbatim>\<open>cp1/src/MAPEstimator.py\<close>\<close>

text \<open>
  The estimator counts the words of a training list per vocabulary id (\<open>fit\<close>), turns a
  count into a probability by the closed-form MAP formula under a symmetric Dirichlet
  prior (\<open>predict_proba\<close>), and averages log-probabilities over a list (\<open>score\<close>).

  Numbers. Python's \<open>int\<close> is \<^typ>\<open>int\<close>. A float64 is modelled by an exact real or one of
  the three IEEE special values; rounding, overflow and the sign of zero are not modelled.
  The entries of \<open>count_V\<close> (a numpy array of float64 built from zeros by adding one) and
  \<open>alpha\<close> are always finite, so they are \<^typ>\<open>real\<close>.
\<close>

subsection \<open>Exceptions and floating-point values\<close>

datatype error = KeyError | ValueError | ZeroDivisionError | TypeError | IndexError

datatype float64 = Finite real | PosInf | NegInf | NaN

text \<open>
  Division of a numpy float64 by a number: dividing by zero does not raise, it gives
  \<open>nan\<close> or an infinity (numpy only warns).
\<close>

fun np_divide :: "float64 \<Rightarrow> real \<Rightarrow> float64" where
  "np_divide (Finite a) b =
     (if b \<noteq> 0 then Finite (a / b)
      else if a = 0 then NaN
      else if 0 < a then PosInf else NegInf)"
| "np_divide PosInf b = (if b < 0 then NegInf else PosInf)"
| "np_divide NegInf b = (if b < 0 then PosInf else NegInf)"
| "np_divide NaN b = NaN"

fun np_add :: "float64 \<Rightarrow> float64 \<Rightarrow> float64" where
  "np_add (Finite a) (Finite b) = Finite (a + b)"
| "np_add NaN y = NaN"
| "np_add x NaN = NaN"
| "np_add PosInf NegInf = NaN"
| "np_add NegInf PosInf = NaN"
| "np_add PosInf y = PosInf"
| "np_add x PosInf = PosInf"
| "np_add NegInf y = NegInf"
| "np_add x NegInf = NegInf"

fun np_log :: "float64 \<Rightarrow> float64" where
  "np_log (Finite x) =
     (if 0 < x then Finite (ln x) else if x = 0 then NegInf else NaN)"
| "np_log PosInf = PosInf"
| "np_log NegInf = NaN"
| "np_log NaN = NaN"

subsection \<open>The vocabulary\<close>

text \<open>
  Modelled from the spec: the class \<open>Vocabulary\<close> (module \<open>Vocabulary\<close>, imported by
  the estimator) is not among the sources. The spec describes it as a fixed collection
  of distinct words, each with a stable identifier in \<open>[0, size)\<close>, exposing \<open>size\<close>
  and \<open>get_word_id\<close>, the latter failing with a "word not found" error (Python's
  \<open>KeyError\<close>, as the estimator's docstring shows) on an unknown word. It is a list of
  words here; the identifier of a word is its position.
\<close>

record Vocabulary =
  vocab_list :: "string list"

definition vocab_size :: "Vocabulary \<Rightarrow> nat" where
  "vocab_size V = length (vocab_list V)"

fun word_index :: "string list \<Rightarrow> string \<Rightarrow> nat option" where
  "word_index [] w = None"
| "word_index (x # xs) w =
     (if x = w then Some 0 else map_option Suc (word_index xs w))"

definition get_word_id :: "Vocabulary \<Rightarrow> string \<Rightarrow> error + nat" where
  "get_word_id V w =
     (case word_index (vocab_list V) w of None \<Rightarrow> Inl KeyError | Some i \<Rightarrow> Inr i)"

subsection \<open>The estimator\<close>

record MAPEstimator =
  vocab :: Vocabulary
  alpha :: real
  total_count :: int
  count_V :: "real list option"

text \<open>The constructor: \<open>count_V\<close> is \<open>None\<close> until \<open>fit\<close> is called.\<close>

definition init :: "Vocabulary \<Rightarrow> real \<Rightarrow> MAPEstimator" where
  "init V a = \<lparr>vocab = V, alpha = a, total_count = 0, count_V = None\<rparr>"

definition np_zeros :: "nat \<Rightarrow> real list" where
  "np_zeros n = replicate n 0"

text \<open>
  The loop of \<open>fit\<close>. Each iteration first adds one to \<open>total_count\<close>, then looks the
  word up, then adds one to its slot. An exception leaves the state as it is at that
  point; the function returns it with the exception.
\<close>

fun fit_loop :: "MAPEstimator \<Rightarrow> string list \<Rightarrow> (error + unit) \<times> MAPEstimator" where
  "fit_loop e [] = (Inr (), e)"
| "fit_loop e (word # word_list) =
     (let e1 = e\<lparr>total_count := total_count e + 1\<rparr> in
      case get_word_id (vocab e1) word of
        Inl err \<Rightarrow> (Inl err, e1)
      | Inr i \<Rightarrow>
          (case count_V e1 of
             None \<Rightarrow> (Inl TypeError, e1)
           | Some cs \<Rightarrow>
               if i < length cs
               then fit_loop (e1\<lparr>count_V := Some (cs[i := cs ! i + 1])\<rparr>) word_list
               else (Inl IndexError, e1)))"

definition fit :: "MAPEstimator \<Rightarrow> string list \<Rightarrow> (error + unit) \<times> MAPEstimator" where
  "fit e word_list =
     fit_loop (e\<lparr>count_V := Some (np_zeros (vocab_size (vocab e))), total_count := 0\<rparr>)
       word_list"

text \<open>The two local conditions of \<open>predict_proba\<close>, on the array \<open>cs\<close> held in \<open>count_V\<close>.\<close>

definition all_vocab_seen :: "MAPEstimator \<Rightarrow> real list \<Rightarrow> bool" where
  "all_vocab_seen e cs \<longleftrightarrow> length (filter (\<lambda>i. 0 < i) cs) = vocab_size (vocab e)"

definition map_exists :: "MAPEstimator \<Rightarrow> real list \<Rightarrow> bool" where
  "map_exists e cs \<longleftrightarrow> all_vocab_seen e cs \<or> 1 < alpha e"

text \<open>
  \<open>predict_proba\<close>: iterating over \<open>count_V\<close> when it is still \<open>None\<close> raises
  \<open>TypeError\<close>; the existence check comes before the lookup of the word.
\<close>

definition predict_proba :: "MAPEstimator \<Rightarrow> string \<Rightarrow> error + float64" where
  "predict_proba e word =
     (case count_V e of
        None \<Rightarrow> Inl TypeError
      | Some cs \<Rightarrow>
          if \<not> map_exists e cs then Inl ValueError
          else
            (case get_word_id (vocab e) word of
               Inl err \<Rightarrow> Inl err
             | Inr word_id \<Rightarrow>
                 if word_id < length cs
                 then Inr (np_divide (Finite (cs ! word_id + alpha e - 1))
                            (real_of_int (total_count e)
                               + real (vocab_size (vocab e)) * (alpha e - 1)))
                 else Inl IndexError))"

text \<open>
  The loop of \<open>score\<close> adds \<open>np.log(predict_proba(word))\<close> to the running total, and
  stops at the first exception.
\<close>

fun score_loop :: "MAPEstimator \<Rightarrow> float64 \<Rightarrow> string list \<Rightarrow> error + float64" where
  "score_loop e total_log_proba [] = Inr total_log_proba"
| "score_loop e total_log_proba (word # word_list) =
     (case predict_proba e word of
        Inl err \<Rightarrow> Inl err
      | Inr p \<Rightarrow> score_loop e (np_add total_log_proba (np_log p)) word_list)"

text \<open>
  The final division. On an empty list the total is still the Python float \<open>0.0\<close> and
  the divisor is the integer \<open>0\<close>: Python raises \<open>ZeroDivisionError\<close>. Otherwise the
  total is a numpy float64 and the divisor is positive.
\<close>

definition score :: "MAPEstimator \<Rightarrow> string list \<Rightarrow> error + float64" where
  "score e word_list =
     (case score_loop e (Finite 0) word_list of
        Inl err \<Rightarrow> Inl err
      | Inr total_log_proba \<Rightarrow>
          if length word_list = 0 then Inl ZeroDivisionError
          else Inr (np_divide total_log_proba (real (length word_list))))"

subsection \<open>Quantities used to state the properties\<close>

text \<open>
  The number of words of a list whose vocabulary id is \<open>i\<close>, and the array of these
  numbers over all ids: what \<open>count_V\<close> holds after a successful \<open>fit\<close>
  (lemma \<open>fit_success\<close>).
\<close>

definition id_count :: "Vocabulary \<Rightarrow> string list \<Rightarrow> nat \<Rightarrow> nat" where
  "id_count V ws i = length (filter (\<lambda>w. get_word_id V w = Inr i) ws)"

definition counts :: "Vocabulary \<Rightarrow> string list \<Rightarrow> real list" where
  "counts V ws = map (\<lambda>i. real (id_count V ws i)) [0..<vocab_size V]"

text \<open>The denominator of the formula of \<open>predict_proba\<close>.\<close>

definition normalizer :: "MAPEstimator \<Rightarrow> real" where
  "normalizer e = real_of_int (total_count e) + real (vocab_size (vocab e)) * (alpha e - 1)"

text \<open>
  The spec's normalization property adds \<open>predict_proba(w)\<close> over all vocabulary
  words. \<open>proba_sum\<close> does so in the order of the ids, with the floating-point addition,
  and stops at the first exception.
\<close>

fun proba_sum_loop :: "MAPEstimator \<Rightarrow> float64 \<Rightarrow> string list \<Rightarrow> error + float64" where
  "proba_sum_loop e acc [] = Inr acc"
| "proba_sum_loop e acc (w # ws) =
     (case predict_proba e w of
        Inl err \<Rightarrow> Inl err
      | Inr p \<Rightarrow> proba_sum_loop e (np_add acc p) ws)"

definition proba_sum :: "MAPEstimator \<Rightarrow> error + float64" where
  "proba_sum e = proba_sum_loop e (Finite 0) (vocab_list (vocab e))"

text \<open>
  The spec's score property speaks of the arithmetic mean of the logarithms of the
  probabilities: \<open>mean_log\<close> is that mean of a list of probabilities, computed on its
  own (a sum from the right, then one division).
\<close>

definition np_sum :: "float64 list \<Rightarrow> float64" where
  "np_sum xs = foldr np_add xs (Finite 0)"

definition mean_log :: "float64 list \<Rightarrow> float64" where
  "mean_log ps = np_divide (np_sum (map np_log ps)) (real (length ps))"

text \<open>The vocabulary and the training list of the docstring of the class.\<close>

definition example_vocab :: Vocabulary where
  "example_vocab = \<lparr>vocab_list = [''dinosaur'', ''trex'', ''stegosaurus'']\<rparr>"

definition example_word_list :: "string list" where
  "example_word_list = [''dinosaur'', ''trex'', ''dinosaur'', ''stegosaurus'']"

text \<open>The state of the estimator of the docstring after its \<open>fit\<close>.\<close>

definition example_fitted :: MAPEstimator where
  "example_fitted =
     \<lparr>vocab = example_vocab, alpha = 2, total_count = 4, count_V = Some [2, 1, 1]\<rparr>"

section \<open>The vocabulary lookup\<close>

lemma word_index_Some:
  "word_index xs w = Some i \<Longrightarrow> i < length xs \<and> xs ! i = w"
  by (induction xs arbitrary: i) (auto split: if_splits)

lemma word_index_None_iff: "word_index xs w = None \<longleftrightarrow> w \<notin> set xs"
  by (induction xs) auto

lemma word_index_distinct:
  "distinct xs \<Longrightarrow> i < length xs \<Longrightarrow> word_index xs (xs ! i) = Some i"
proof (induction xs arbitrary: i)
  case Nil
  then show ?case by simp
next
  case (Cons x xs)
  then show ?case by (cases i) auto
qed

lemma get_word_id_in:
  "w \<in> set (vocab_list V) \<Longrightarrow>
     \<exists>i. get_word_id V w = Inr i \<and> i < vocab_size V \<and> vocab_list V ! i = w"
  using word_index_None_iff [of "vocab_list V" w] word_index_Some [of "vocab_list V" w]
  by (cases "word_index (vocab_list V) w") (auto simp: get_word_id_def vocab_size_def)

lemma get_word_id_notin:
  "w \<notin> set (vocab_list V) \<Longrightarrow> get_word_id V w = Inl KeyError"
  by (simp add: get_word_id_def word_index_None_iff [THEN iffD2])

lemma get_word_id_Inr:
  "get_word_id V w = Inr i \<Longrightarrow> i < vocab_size V \<and> vocab_list V ! i = w"
  using word_index_Some [of "vocab_list V" w i]
  by (auto simp: get_word_id_def vocab_size_def split: option.splits)

lemma get_word_id_distinct:
  "distinct (vocab_list V) \<Longrightarrow> i < vocab_size V \<Longrightarrow> get_word_id V (vocab_list V ! i) = Inr i"
  by (simp add: get_word_id_def vocab_size_def word_index_distinct)

section \<open>What \<open>fit\<close> computes\<close>

text \<open>
  The loop, started on an array of the right length with words of the vocabulary only,
  ends normally, having added the length of the list to \<open>total_count\<close> and the number
  of words of id \<open>i\<close> to slot \<open>i\<close>.
\<close>

lemma fit_loop_closed:
  "set ws \<subseteq> set (vocab_list (vocab e)) \<Longrightarrow> count_V e = Some cs \<Longrightarrow>
   length cs = vocab_size (vocab e) \<Longrightarrow>
   fit_loop e ws =
     (Inr (), e\<lparr>total_count := total_count e + int (length ws),
               count_V := Some (map (\<lambda>i. cs ! i + real (id_count (vocab e) ws i))
                                 [0..<length cs])\<rparr>)"
proof (induction ws arbitrary: e cs)
  case Nil
  show ?case by (simp add: id_count_def map_nth Nil(2)[symmetric])
next
  case (Cons w ws)
  from Cons.prems(1) obtain i
    where i: "get_word_id (vocab e) w = Inr i" "i < vocab_size (vocab e)"
    using get_word_id_in [of w "vocab e"] by auto
  let ?cs = "cs[i := cs ! i + 1]"
  let ?e2 = "e\<lparr>total_count := total_count e + 1, count_V := Some ?cs\<rparr>"
  have step: "fit_loop e (w # ws) = fit_loop ?e2 ws"
    using i Cons.prems(2,3) by simp
  have "fit_loop ?e2 ws =
     (Inr (), ?e2\<lparr>total_count := total_count ?e2 + int (length ws),
               count_V := Some (map (\<lambda>j. ?cs ! j + real (id_count (vocab ?e2) ws j))
                                 [0..<length ?cs])\<rparr>)"
    by (rule Cons.IH) (use Cons.prems in auto)
  moreover have "map (\<lambda>j. ?cs ! j + real (id_count (vocab e) ws j)) [0..<length cs]
     = map (\<lambda>j. cs ! j + real (id_count (vocab e) (w # ws) j)) [0..<length cs]"
    using i by (auto simp: id_count_def nth_list_update)
  ultimately show ?case
    using step by simp
qed

lemma fit_success:
  assumes "set ws \<subseteq> set (vocab_list (vocab e))"
  shows "fit e ws =
     (Inr (), e\<lparr>count_V := Some (counts (vocab e) ws), total_count := int (length ws)\<rparr>)"
proof -
  let ?n = "vocab_size (vocab e)"
  let ?e0 = "e\<lparr>count_V := Some (np_zeros ?n), total_count := 0\<rparr>"
  have "fit_loop ?e0 ws =
     (Inr (), ?e0\<lparr>total_count := total_count ?e0 + int (length ws),
               count_V := Some (map (\<lambda>i. np_zeros ?n ! i + real (id_count (vocab ?e0) ws i))
                                 [0..<length (np_zeros ?n)])\<rparr>)"
    by (rule fit_loop_closed) (use assms in \<open>auto simp: np_zeros_def\<close>)
  then show ?thesis
    by (simp add: fit_def counts_def np_zeros_def cong: map_cong)
qed

lemma fit_loop_append:
  "fit_loop e (xs @ ys) =
     (case fit_loop e xs of
        (Inr u, e') \<Rightarrow> fit_loop e' ys
      | (Inl err, e') \<Rightarrow> (Inl err, e'))"
  by (induction xs arbitrary: e) (auto simp: Let_def split: sum.splits option.splits)

text \<open>The first word that is not in the vocabulary ends \<open>fit\<close> with \<open>KeyError\<close>.\<close>

lemma fit_failure:
  assumes "set pre \<subseteq> set (vocab_list (vocab e))" and "w \<notin> set (vocab_list (vocab e))"
  shows "fit e (pre @ w # rest) =
     (Inl KeyError,
      e\<lparr>count_V := Some (counts (vocab e) pre), total_count := int (length pre) + 1\<rparr>)"
proof -
  let ?e0 = "e\<lparr>count_V := Some (np_zeros (vocab_size (vocab e))), total_count := 0\<rparr>"
  let ?e1 = "e\<lparr>count_V := Some (counts (vocab e) pre), total_count := int (length pre)\<rparr>"
  have "fit_loop ?e0 pre = (Inr (), ?e1)"
    using fit_success [OF assms(1)] by (simp add: fit_def)
  moreover have "fit_loop ?e1 (w # rest)
      = (Inl KeyError, ?e1\<lparr>total_count := int (length pre) + 1\<rparr>)"
    using get_word_id_notin [OF assms(2)] by simp
  ultimately show ?thesis
    by (simp add: fit_def fit_loop_append)
qed

lemma fit_Inr_words:
  assumes "fit e ws = (Inr u, e')"
  shows "set ws \<subseteq> set (vocab_list (vocab e))"
proof (rule ccontr)
  assume "\<not> set ws \<subseteq> set (vocab_list (vocab e))"
  then have "\<exists>x\<in>set ws. x \<notin> set (vocab_list (vocab e))" by auto
  then obtain pre w rest where ws: "ws = pre @ w # rest"
    and w: "w \<notin> set (vocab_list (vocab e))"
    and pre: "\<forall>y\<in>set pre. \<not> y \<notin> set (vocab_list (vocab e))"
    using split_list_first_prop [of ws "\<lambda>x. x \<notin> set (vocab_list (vocab e))"] by blast
  from pre have "set pre \<subseteq> set (vocab_list (vocab e))" by auto
  from fit_failure [OF this w, of rest] assms ws show False by simp
qed

text \<open>A state reached by a successful \<open>fit\<close>, in closed form.\<close>

lemma fitted_state:
  assumes "fit e0 ws = (Inr u, e)"
  shows "set ws \<subseteq> set (vocab_list (vocab e))"
    and "vocab e = vocab e0" and "alpha e = alpha e0"
    and "count_V e = Some (counts (vocab e) ws)"
    and "total_count e = int (length ws)"
proof -
  have sub: "set ws \<subseteq> set (vocab_list (vocab e0))"
    using assms by (rule fit_Inr_words)
  from fit_success [OF sub] assms
  have e: "e = e0\<lparr>count_V := Some (counts (vocab e0) ws), total_count := int (length ws)\<rparr>"
    by simp
  show "vocab e = vocab e0" "alpha e = alpha e0" "total_count e = int (length ws)"
    by (simp_all add: e)
  show "set ws \<subseteq> set (vocab_list (vocab e))" "count_V e = Some (counts (vocab e) ws)"
    using sub by (simp_all add: e)
qed

lemma length_counts: "length (counts V ws) = vocab_size V"
  by (simp add: counts_def)

lemma id_count_Cons:
  "id_count V (w # ws) i = id_count V ws i + (if get_word_id V w = Inr i then 1 else 0)"
  by (simp add: id_count_def)

lemma sum_list_counts:
  "set ws \<subseteq> set (vocab_list V) \<Longrightarrow> sum_list (counts V ws) = real (length ws)"
proof (induction ws)
  case Nil
  then show ?case by (simp add: counts_def id_count_def)
next
  case (Cons w ws)
  then obtain k where k: "get_word_id V w = Inr k" "k < vocab_size V"
    using get_word_id_in [of w V] by auto
  have "sum_list (counts V (w # ws)) = (\<Sum>i = 0..<vocab_size V. real (id_count V (w # ws) i))"
    by (simp add: counts_def interv_sum_list_conv_sum_set_nat)
  also have "\<dots> = (\<Sum>i = 0..<vocab_size V. real (id_count V ws i))
                   + (\<Sum>i = 0..<vocab_size V. if k = i then 1 else (0::real))"
    by (simp add: id_count_Cons k sum.distrib if_distrib [of real] cong: if_cong)
  also have "(\<Sum>i = 0..<vocab_size V. if k = i then 1 else 0) = (1::real)"
    using k by simp
  also have "(\<Sum>i = 0..<vocab_size V. real (id_count V ws i)) = sum_list (counts V ws)"
    by (simp add: counts_def interv_sum_list_conv_sum_set_nat)
  finally show ?case using Cons by simp
qed

lemma counts_nth:
  assumes "get_word_id V w = Inr i"
  shows "counts V ws ! i = real (count_list ws w)"
proof -
  have i: "i < vocab_size V"
    using assms by (simp add: get_word_id_Inr)
  have "\<And>x. get_word_id V x = Inr i \<longleftrightarrow> w = x"
    using assms get_word_id_Inr [of V _ i] by auto
  then have "id_count V ws i = count_list ws w"
    by (simp add: id_count_def count_list_eq_length_filter cong: filter_cong)
  then show ?thesis using i by (simp add: counts_def)
qed

lemma count_list_pos_iff: "0 < count_list xs x \<longleftrightarrow> x \<in> set xs"
  using count_list_0_iff [of xs x] by auto

lemma counts_nth_id: "i < vocab_size V \<Longrightarrow> counts V ws ! i = real (id_count V ws i)"
  by (simp add: counts_def)

text \<open>The docstring's example, evaluated.\<close>

lemma example_fit:
  "fit (init example_vocab 2) example_word_list = (Inr (), example_fitted)"
  by (simp add: fit_def init_def example_vocab_def example_word_list_def np_zeros_def
      vocab_size_def get_word_id_def example_fitted_def)

lemma example_count_V: "count_V example_fitted = Some [2, 1, 1]"
  by (simp add: example_fitted_def)

lemma example_map_exists: "map_exists example_fitted [2, 1, 1]"
  by (simp add: example_fitted_def map_exists_def)

lemma example_dinosaur: "''dinosaur'' \<in> set (vocab_list (vocab example_fitted))"
  by (simp add: example_fitted_def example_vocab_def)

section \<open>Properties of \<open>fit\<close>\<close>

text \<open>
  C2. For every word list \<open>L\<close> whose words are all in the vocabulary, \<open>fit\<close> ends
  normally, from any state of the estimator, and afterwards the sum of \<open>count_V\<close>, the
  length of \<open>L\<close> and \<open>total_count\<close> are equal; \<open>count_V\<close> has \<open>vocab.size\<close> entries,
  and the entry at the id of a word is the number of occurrences of that word in \<open>L\<close>.
\<close>

theorem fit_count_conservation:
  assumes "set L \<subseteq> set (vocab_list (vocab e))"
  shows "\<exists>e' cs. fit e L = (Inr (), e') \<and> count_V e' = Some cs
           \<and> sum_list cs = real (length L) \<and> total_count e' = int (length L)
           \<and> length cs = vocab_size (vocab e') \<and> vocab e' = vocab e
           \<and> (\<forall>w i. get_word_id (vocab e) w = Inr i \<longrightarrow>
                  i < length cs \<and> cs ! i = real (count_list L w))"
proof -
  let ?e' = "e\<lparr>count_V := Some (counts (vocab e) L), total_count := int (length L)\<rparr>"
  have "fit e L = (Inr (), ?e')"
    using assms by (rule fit_success)
  moreover have "sum_list (counts (vocab e) L) = real (length L)"
    using assms by (rule sum_list_counts)
  moreover have "\<forall>w i. get_word_id (vocab e) w = Inr i \<longrightarrow>
      i < length (counts (vocab e) L) \<and> counts (vocab e) L ! i = real (count_list L w)"
    by (simp add: counts_nth length_counts get_word_id_Inr)
  ultimately show ?thesis
    by (simp add: length_counts)
qed

theorem fit_count_conservation_witness:
  "set example_word_list \<subseteq> set (vocab_list (vocab (init example_vocab 2)))
   \<and> fit (init example_vocab 2) example_word_list
       = (Inr (), \<lparr>vocab = example_vocab, alpha = 2, total_count = 4,
                   count_V = Some [2, 1, 1]\<rparr>)
   \<and> get_word_id (vocab (init example_vocab 2)) ''dinosaur'' = Inr 0
   \<and> (\<exists>e' cs. fit (init example_vocab 2) example_word_list = (Inr (), e')
           \<and> count_V e' = Some cs
           \<and> sum_list cs = real (length example_word_list)
           \<and> total_count e' = int (length example_word_list)
           \<and> length cs = vocab_size (vocab e') \<and> vocab e' = vocab (init example_vocab 2)
           \<and> (\<forall>w i. get_word_id (vocab (init example_vocab 2)) w = Inr i \<longrightarrow>
                  i < length cs \<and> cs ! i = real (count_list example_word_list w)))"
proof -
  have h: "set example_word_list \<subseteq> set (vocab_list (vocab (init example_vocab 2)))"
    by (simp add: init_def example_vocab_def example_word_list_def)
  have "fit (init example_vocab 2) example_word_list
       = (Inr (), \<lparr>vocab = example_vocab, alpha = 2, total_count = 4,
                   count_V = Some [2, 1, 1]\<rparr>)"
    by (simp add: fit_def init_def example_vocab_def example_word_list_def np_zeros_def
        vocab_size_def get_word_id_def)
  moreover have "get_word_id (vocab (init example_vocab 2)) ''dinosaur'' = Inr 0"
    by (simp add: init_def example_vocab_def get_word_id_def)
  ultimately show ?thesis
    using h fit_count_conservation [OF h] by blast
qed

text \<open>
  C8. For word lists \<open>L1\<close> and \<open>L2\<close> over the vocabulary, \<open>fit L1\<close> followed by
  \<open>fit L2\<close> ends in the very state that \<open>fit L2\<close> alone reaches from a fresh estimator:
  \<open>count_V\<close> and \<open>total_count\<close> are those of \<open>L2\<close>, nothing of \<open>L1\<close> remains.
\<close>

theorem refit_overwrites:
  assumes "set L1 \<subseteq> set (vocab_list V)" and "set L2 \<subseteq> set (vocab_list V)"
  shows "\<exists>e1 e2. fit (init V a) L1 = (Inr (), e1) \<and> fit e1 L2 = (Inr (), e2)
           \<and> fit (init V a) L2 = (Inr (), e2)
           \<and> count_V e2 = Some (counts V L2) \<and> total_count e2 = int (length L2)"
proof -
  let ?e1 = "(init V a)\<lparr>count_V := Some (counts V L1), total_count := int (length L1)\<rparr>"
  let ?e2 = "(init V a)\<lparr>count_V := Some (counts V L2), total_count := int (length L2)\<rparr>"
  have 1: "fit (init V a) L1 = (Inr (), ?e1)"
    using fit_success [of L1 "init V a"] assms(1) by (simp add: init_def)
  have 2: "fit (init V a) L2 = (Inr (), ?e2)"
    using fit_success [of L2 "init V a"] assms(2) by (simp add: init_def)
  have 3: "fit ?e1 L2 = (Inr (), ?e2)"
    using fit_success [of L2 ?e1] assms(2) by (simp add: init_def)
  show ?thesis using 1 2 3 by simp
qed

theorem refit_overwrites_witness:
  "set [''trex'', ''trex''] \<subseteq> set (vocab_list example_vocab)
   \<and> set example_word_list \<subseteq> set (vocab_list example_vocab)
   \<and> fit (init example_vocab 2) [''trex'', ''trex'']
       = (Inr (), \<lparr>vocab = example_vocab, alpha = 2, total_count = 2,
                   count_V = Some [0, 2, 0]\<rparr>)
   \<and> fit \<lparr>vocab = example_vocab, alpha = 2, total_count = 2, count_V = Some [0, 2, 0]\<rparr>
         example_word_list
       = (Inr (), \<lparr>vocab = example_vocab, alpha = 2, total_count = 4,
                   count_V = Some [2, 1, 1]\<rparr>)
   \<and> (\<exists>e1 e2. fit (init example_vocab 2) [''trex'', ''trex''] = (Inr (), e1)
           \<and> fit e1 example_word_list = (Inr (), e2)
           \<and> fit (init example_vocab 2) example_word_list = (Inr (), e2)
           \<and> count_V e2 = Some (counts example_vocab example_word_list)
           \<and> total_count e2 = int (length example_word_list))"
proof -
  have h1: "set [''trex'', ''trex''] \<subseteq> set (vocab_list example_vocab)"
    by (simp add: example_vocab_def)
  have h2: "set example_word_list \<subseteq> set (vocab_list example_vocab)"
    by (simp add: example_vocab_def example_word_list_def)
  have "fit (init example_vocab 2) [''trex'', ''trex'']
       = (Inr (), \<lparr>vocab = example_vocab, alpha = 2, total_count = 2,
                   count_V = Some [0, 2, 0]\<rparr>)"
    by (simp add: fit_def init_def example_vocab_def np_zeros_def vocab_size_def
        get_word_id_def)
  moreover have
    "fit \<lparr>vocab = example_vocab, alpha = 2, total_count = 2, count_V = Some [0, 2, 0]\<rparr>
         example_word_list
       = (Inr (), \<lparr>vocab = example_vocab, alpha = 2, total_count = 4,
                   count_V = Some [2, 1, 1]\<rparr>)"
    by (simp add: fit_def example_vocab_def example_word_list_def np_zeros_def
        vocab_size_def get_word_id_def)
  ultimately show ?thesis
    using h1 h2 refit_overwrites [OF h1 h2, of 2] by blast
qed

text \<open>
  C10. \<open>fit\<close> is not atomic. On a list whose first \<open>k\<close> words are in the vocabulary
  and whose next word is not, \<open>fit\<close> raises \<open>KeyError\<close> and leaves \<open>total_count\<close>
  at \<open>k + 1\<close> while the entries of \<open>count_V\<close> add up to \<open>k\<close>: after the failed call the
  sum of \<open>count_V\<close> differs from \<open>total_count\<close>.
\<close>

theorem fit_not_atomic:
  assumes "set pre \<subseteq> set (vocab_list (vocab e))" and "w \<notin> set (vocab_list (vocab e))"
  shows "\<exists>e' cs. fit e (pre @ w # rest) = (Inl KeyError, e')
           \<and> total_count e' = int (length pre) + 1
           \<and> count_V e' = Some cs \<and> sum_list cs = real (length pre)
           \<and> sum_list cs \<noteq> real_of_int (total_count e')"
proof -
  let ?e' = "e\<lparr>count_V := Some (counts (vocab e) pre), total_count := int (length pre) + 1\<rparr>"
  have "fit e (pre @ w # rest) = (Inl KeyError, ?e')"
    using assms by (rule fit_failure)
  moreover have "sum_list (counts (vocab e) pre) = real (length pre)"
    using assms(1) by (rule sum_list_counts)
  ultimately show ?thesis by simp
qed

theorem fit_not_atomic_witness:
  "set [''dinosaur'', ''trex''] \<subseteq> set (vocab_list (vocab (init example_vocab 2)))
   \<and> ''zebra'' \<notin> set (vocab_list (vocab (init example_vocab 2)))
   \<and> fit (init example_vocab 2) ([''dinosaur'', ''trex''] @ ''zebra'' # [''dinosaur''])
       = (Inl KeyError, \<lparr>vocab = example_vocab, alpha = 2, total_count = 3,
                         count_V = Some [1, 1, 0]\<rparr>)
   \<and> (\<exists>e' cs. fit (init example_vocab 2) ([''dinosaur'', ''trex''] @ ''zebra'' # [''dinosaur''])
                 = (Inl KeyError, e')
           \<and> total_count e' = int (length [''dinosaur'', ''trex'']) + 1
           \<and> count_V e' = Some cs \<and> sum_list cs = real (length [''dinosaur'', ''trex''])
           \<and> sum_list cs \<noteq> real_of_int (total_count e'))"
proof -
  have h1: "set [''dinosaur'', ''trex''] \<subseteq> set (vocab_list (vocab (init example_vocab 2)))"
    by (simp add: init_def example_vocab_def)
  have h2: "''zebra'' \<notin> set (vocab_list (vocab (init example_vocab 2)))"
    by (simp add: init_def example_vocab_def)
  have "fit (init example_vocab 2) ([''dinosaur'', ''trex''] @ ''zebra'' # [''dinosaur''])
       = (Inl KeyError, \<lparr>vocab = example_vocab, alpha = 2, total_count = 3,
                         count_V = Some [1, 1, 0]\<rparr>)"
    by (simp add: fit_def init_def example_vocab_def np_zeros_def vocab_size_def
        get_word_id_def)
  then show ?thesis
    using h1 h2 fit_not_atomic [OF h1 h2, of "[''dinosaur'']"] by blast
qed

section \<open>What \<open>predict_proba\<close> computes on a fitted estimator\<close>

lemma length_filter_all: "length (filter P xs) = length xs \<longleftrightarrow> (\<forall>x\<in>set xs. P x)"
proof
  assume "length (filter P xs) = length xs"
  then show "\<forall>x\<in>set xs. P x"
    using length_filter_less [of _ xs P] by fastforce
next
  assume "\<forall>x\<in>set xs. P x"
  then show "length (filter P xs) = length xs" by simp
qed

lemma all_vocab_seen_counts:
  assumes "vocab e = V"
  shows "all_vocab_seen e (counts V ws) \<longleftrightarrow> (\<forall>i<vocab_size V. 0 < id_count V ws i)"
proof -
  have "all_vocab_seen e (counts V ws) \<longleftrightarrow> (\<forall>x\<in>set (counts V ws). 0 < x)"
    using assms length_filter_all [of "\<lambda>i. 0 < i" "counts V ws"]
    by (simp add: all_vocab_seen_def length_counts)
  also have "\<dots> \<longleftrightarrow> (\<forall>i<vocab_size V. 0 < id_count V ws i)"
    by (auto simp: counts_def)
  finally show ?thesis .
qed

lemma predict_proba_fitted:
  assumes "fit e0 L = (Inr u, e)" and "map_exists e (counts (vocab e) L)"
    and "get_word_id (vocab e) w = Inr i"
  shows "predict_proba e w =
     Inr (np_divide (Finite (counts (vocab e) L ! i + alpha e - 1)) (normalizer e))"
  using assms fitted_state(4) [OF assms(1)] get_word_id_Inr [OF assms(3)]
  by (simp add: predict_proba_def normalizer_def length_counts)

lemma normalizer_fitted:
  assumes "fit e0 L = (Inr u, e)"
  shows "normalizer e = (\<Sum>i = 0..<vocab_size (vocab e). counts (vocab e) L ! i + alpha e - 1)"
proof -
  let ?cs = "counts (vocab e) L"
  have "sum_list ?cs = real (length L)"
    using fitted_state(1) [OF assms] by (rule sum_list_counts)
  moreover have "sum_list ?cs = (\<Sum>i = 0..<vocab_size (vocab e). ?cs ! i)"
    using sum_list_sum_nth [of ?cs] by (simp add: length_counts)
  moreover have "(\<Sum>i = 0..<vocab_size (vocab e). ?cs ! i + alpha e - 1)
      = (\<Sum>i = 0..<vocab_size (vocab e). ?cs ! i) + real (vocab_size (vocab e)) * (alpha e - 1)"
    by (simp add: sum.distrib add_diff_eq [symmetric] del: add_diff_eq)
  ultimately show ?thesis
    using fitted_state(5) [OF assms] by (simp add: normalizer_def)
qed

lemma not_map_exists_unseen:
  assumes "fit e0 L = (Inr u, e)" and "v \<in> set (vocab_list (vocab e))" and "v \<notin> set L"
    and "alpha e \<le> 1"
  shows "\<not> map_exists e (counts (vocab e) L)"
proof -
  obtain i where i: "get_word_id (vocab e) v = Inr i" "i < vocab_size (vocab e)"
    using get_word_id_in [OF assms(2)] by auto
  have "counts (vocab e) L ! i = real (count_list L v)"
    using i(1) by (rule counts_nth)
  then have "id_count (vocab e) L i = 0"
    using assms(3) i(2) by (simp add: counts_nth_id)
  then have "\<not> all_vocab_seen e (counts (vocab e) L)"
    using i(2) all_vocab_seen_counts [of e "vocab e" L] by auto
  then show ?thesis
    using assms(4) by (simp add: map_exists_def)
qed

lemma all_vocab_seen_covered:
  assumes "distinct (vocab_list (vocab e))" and "set (vocab_list (vocab e)) \<subseteq> set L"
  shows "all_vocab_seen e (counts (vocab e) L)"
proof -
  have "0 < id_count (vocab e) L i" if i: "i < vocab_size (vocab e)" for i
  proof -
    let ?v = "vocab_list (vocab e) ! i"
    have "get_word_id (vocab e) ?v = Inr i"
      using assms(1) i by (rule get_word_id_distinct)
    then have "counts (vocab e) L ! i = real (count_list L ?v)"
      by (rule counts_nth)
    moreover have "?v \<in> set L"
      using assms(2) i by (auto simp: vocab_size_def)
    then have "0 < count_list L ?v"
      by (simp add: count_list_pos_iff)
    ultimately show ?thesis
      using i by (simp add: counts_nth_id)
  qed
  then show ?thesis
    using all_vocab_seen_counts [of e "vocab e" L] by simp
qed

lemma numerator_pos:
  assumes "fit e0 L = (Inr u, e)" and "map_exists e (counts (vocab e) L)" and "0 < alpha e"
    and "j < vocab_size (vocab e)"
  shows "0 < counts (vocab e) L ! j + alpha e - 1"
proof (cases "1 < alpha e")
  case True
  then show ?thesis
    using assms(4) by (simp add: counts_nth_id add_pos_nonneg)
next
  case False
  then have "all_vocab_seen e (counts (vocab e) L)"
    using assms(2) by (simp add: map_exists_def)
  then have "0 < id_count (vocab e) L j"
    using assms(4) all_vocab_seen_counts [of e "vocab e" L] by simp
  then have "1 \<le> real (id_count (vocab e) L j)"
    by simp
  then show ?thesis
    using assms(3,4) by (simp add: counts_nth_id)
qed

lemma predict_proba_fitted_bounds:
  assumes "fit e0 L = (Inr u, e)" and "map_exists e (counts (vocab e) L)"
    and "0 < alpha e" and "w \<in> set (vocab_list (vocab e))"
  shows "\<exists>p. predict_proba e w = Inr (Finite p) \<and> 0 < p \<and> p \<le> 1"
proof -
  let ?n = "vocab_size (vocab e)"
  let ?N = "\<lambda>j. counts (vocab e) L ! j + alpha e - 1"
  obtain i where i: "get_word_id (vocab e) w = Inr i" "i < ?n"
    using get_word_id_in [OF assms(4)] by auto
  have pos: "0 < ?N j" if "j < ?n" for j
    using numerator_pos [OF assms(1,2,3) that] .
  have D: "normalizer e = (\<Sum>j = 0..<?n. ?N j)"
    using assms(1) by (rule normalizer_fitted)
  have "?N i \<le> (\<Sum>j = 0..<?n. ?N j)"
  proof (rule member_le_sum)
    show "i \<in> {0..<?n}" using i(2) by simp
    show "0 \<le> ?N x" if "x \<in> {0..<?n} - {i}" for x
      using pos [of x] that by simp
    show "finite {0..<?n}" by simp
  qed
  then have le: "?N i \<le> normalizer e"
    by (simp add: D)
  have Dpos: "0 < normalizer e"
    using pos [OF i(2)] le by linarith
  have "predict_proba e w = Inr (np_divide (Finite (?N i)) (normalizer e))"
    using assms(1,2) i(1) by (rule predict_proba_fitted)
  then have "predict_proba e w = Inr (Finite (?N i / normalizer e))"
    using Dpos by simp
  moreover have "0 < ?N i / normalizer e"
    using pos [OF i(2)] Dpos by simp
  moreover have "?N i / normalizer e \<le> 1"
    using le Dpos by simp
  ultimately show ?thesis by blast
qed

lemma proba_sum_loop_finite:
  "(\<And>w. w \<in> set ws \<Longrightarrow> predict_proba e w = Inr (Finite (f w))) \<Longrightarrow>
     proba_sum_loop e (Finite a) ws = Inr (Finite (a + sum_list (map f ws)))"
  by (induction ws arbitrary: a) (simp_all add: add.assoc)

section \<open>Properties of \<open>predict_proba\<close>\<close>

text \<open>
  C1 (as amended). On an estimator fitted successfully, when the MAP existence condition
  holds (all slots of \<open>count_V\<close> positive, or \<open>alpha > 1\<close>), \<open>predict_proba\<close> of a
  vocabulary word \<open>w\<close> of id \<open>i\<close> returns the floating-point quotient of
  \<open>count_V[i] + alpha - 1\<close> by \<open>total_count + vocab.size * (alpha - 1)\<close>, which is the
  real quotient when the denominator is not zero. In the docstring's example
  \<open>predict_proba('dinosaur')\<close> is \<open>3/7\<close>.
\<close>

theorem predict_proba_formula:
  assumes "fit e0 L = (Inr (), e)" and "count_V e = Some cs" and "map_exists e cs"
    and "get_word_id (vocab e) w = Inr i"
  shows "predict_proba e w =
           Inr (np_divide (Finite (cs ! i + alpha e - 1))
                  (real_of_int (total_count e) + real (vocab_size (vocab e)) * (alpha e - 1)))
       \<and> (real_of_int (total_count e) + real (vocab_size (vocab e)) * (alpha e - 1) \<noteq> 0 \<longrightarrow>
            predict_proba e w =
              Inr (Finite ((cs ! i + alpha e - 1)
                   / (real_of_int (total_count e) + real (vocab_size (vocab e)) * (alpha e - 1)))))
       \<and> predict_proba (snd (fit (init example_vocab 2) example_word_list)) ''dinosaur''
           = Inr (Finite (3 / 7))"
proof -
  have cs: "cs = counts (vocab e) L"
    using fitted_state(4) [OF assms(1)] assms(2) by simp
  have "predict_proba e w = Inr (np_divide (Finite (cs ! i + alpha e - 1)) (normalizer e))"
    using predict_proba_fitted [OF assms(1) _ assms(4)] assms(3) by (simp add: cs)
  moreover have "predict_proba (snd (fit (init example_vocab 2) example_word_list)) ''dinosaur''
           = Inr (Finite (3 / 7))"
    by (simp add: fit_def init_def example_vocab_def example_word_list_def np_zeros_def
        vocab_size_def get_word_id_def predict_proba_def map_exists_def)
  ultimately show ?thesis
    by (simp add: normalizer_def)
qed

theorem predict_proba_formula_witness:
  "fit (init example_vocab 2) example_word_list = (Inr (), example_fitted)
   \<and> count_V example_fitted = Some [2, 1, 1]
   \<and> map_exists example_fitted [2, 1, 1]
   \<and> get_word_id (vocab example_fitted) ''trex'' = Inr 1
   \<and> real_of_int (total_count example_fitted)
        + real (vocab_size (vocab example_fitted)) * (alpha example_fitted - 1) = 7
   \<and> predict_proba example_fitted ''trex'' = Inr (Finite (2 / 7))"
proof -
  have id: "get_word_id (vocab example_fitted) ''trex'' = Inr 1"
    by (simp add: example_fitted_def example_vocab_def get_word_id_def)
  have d: "real_of_int (total_count example_fitted)
        + real (vocab_size (vocab example_fitted)) * (alpha example_fitted - 1) = 7"
    by (simp add: example_fitted_def example_vocab_def vocab_size_def)
  from predict_proba_formula [OF example_fit example_count_V example_map_exists id]
  have "predict_proba example_fitted ''trex'' = Inr (Finite (2 / 7))"
    by (simp add: d) (simp add: example_fitted_def)
  then show ?thesis
    using example_fit example_count_V example_map_exists id d by simp
qed

text \<open>
  C1 (as stated) fails without the existence condition: with \<open>alpha = 1\<close> and the word
  \<open>stegosaurus\<close> never seen, \<open>predict_proba\<close> of the vocabulary word \<open>dinosaur\<close>
  raises \<open>ValueError\<close> and returns no value.
\<close>

theorem predict_proba_formula_counterexample:
  "fit (init example_vocab 1) [''dinosaur'', ''trex'']
     = (Inr (), \<lparr>vocab = example_vocab, alpha = 1, total_count = 2, count_V = Some [1, 1, 0]\<rparr>)
   \<and> get_word_id example_vocab ''dinosaur'' = Inr 0
   \<and> predict_proba \<lparr>vocab = example_vocab, alpha = 1, total_count = 2, count_V = Some [1, 1, 0]\<rparr>
        ''dinosaur'' = Inl ValueError"
  by (simp add: fit_def init_def example_vocab_def np_zeros_def
        vocab_size_def get_word_id_def predict_proba_def map_exists_def all_vocab_seen_def)

text \<open>
  C4. With \<open>alpha = 1\<close>, on an estimator fitted on \<open>L\<close>: if some vocabulary word
  does not occur in \<open>L\<close>, \<open>predict_proba\<close> raises \<open>ValueError\<close> (the spec's
  InvalidMAPHyperparameter) on every word; if every word of the (duplicate-free)
  vocabulary occurs in \<open>L\<close>, \<open>predict_proba\<close> of a vocabulary word returns its
  relative frequency in \<open>L\<close>, a number in \<open>(0, 1]\<close>.
\<close>

theorem alpha_one_boundary:
  assumes "fit e0 L = (Inr (), e)" and "alpha e = 1"
  shows "((\<exists>v\<in>set (vocab_list (vocab e)). count_list L v = 0) \<longrightarrow>
            predict_proba e w = Inl ValueError)
       \<and> (distinct (vocab_list (vocab e))
            \<and> (\<forall>v\<in>set (vocab_list (vocab e)). 0 < count_list L v)
            \<and> w \<in> set (vocab_list (vocab e)) \<longrightarrow>
            predict_proba e w = Inr (Finite (real (count_list L w) / real (length L)))
            \<and> 0 < real (count_list L w) / real (length L)
            \<and> real (count_list L w) / real (length L) \<le> 1)"
proof (intro conjI impI)
  assume "\<exists>v\<in>set (vocab_list (vocab e)). count_list L v = 0"
  then obtain v where "v \<in> set (vocab_list (vocab e))" "v \<notin> set L"
    by (auto simp: count_list_0_iff)
  then have "\<not> map_exists e (counts (vocab e) L)"
    using not_map_exists_unseen [OF assms(1)] assms(2) by simp
  then show "predict_proba e w = Inl ValueError"
    using fitted_state(4) [OF assms(1)] by (simp add: predict_proba_def)
next
  assume a: "distinct (vocab_list (vocab e))
            \<and> (\<forall>v\<in>set (vocab_list (vocab e)). 0 < count_list L v)
            \<and> w \<in> set (vocab_list (vocab e))"
  then have "set (vocab_list (vocab e)) \<subseteq> set L"
    by (auto simp: count_list_pos_iff)
  with a have "all_vocab_seen e (counts (vocab e) L)"
    by (simp add: all_vocab_seen_covered)
  then have m: "map_exists e (counts (vocab e) L)"
    by (simp add: map_exists_def)
  obtain i where i: "get_word_id (vocab e) w = Inr i"
    using a get_word_id_in [of w "vocab e"] by auto
  have pos: "0 < count_list L w"
    using a by simp
  then have len: "0 < length L"
    using count_le_length [of L w] by linarith
  have "normalizer e = real (length L)"
    using fitted_state(5) [OF assms(1)] assms(2) by (simp add: normalizer_def)
  then show "predict_proba e w = Inr (Finite (real (count_list L w) / real (length L)))"
    using predict_proba_fitted [OF assms(1) m i] counts_nth [OF i, of L] assms(2) len
    by simp
  show "0 < real (count_list L w) / real (length L)"
    using pos len by simp
  show "real (count_list L w) / real (length L) \<le> 1"
    using count_le_length [of L w] len by simp
qed

theorem alpha_one_boundary_witness:
  "fit (init example_vocab 1) [''dinosaur'', ''trex'']
     = (Inr (), \<lparr>vocab = example_vocab, alpha = 1, total_count = 2, count_V = Some [1, 1, 0]\<rparr>)
   \<and> ''stegosaurus'' \<in> set (vocab_list example_vocab)
   \<and> count_list [''dinosaur'', ''trex''] ''stegosaurus'' = 0
   \<and> predict_proba
        \<lparr>vocab = example_vocab, alpha = 1, total_count = 2, count_V = Some [1, 1, 0]\<rparr>
        ''dinosaur'' = Inl ValueError
   \<and> fit (init example_vocab 1) example_word_list
     = (Inr (), \<lparr>vocab = example_vocab, alpha = 1, total_count = 4, count_V = Some [2, 1, 1]\<rparr>)
   \<and> distinct (vocab_list example_vocab)
   \<and> 0 < count_list example_word_list ''dinosaur''
   \<and> 0 < count_list example_word_list ''trex''
   \<and> 0 < count_list example_word_list ''stegosaurus''
   \<and> predict_proba
        \<lparr>vocab = example_vocab, alpha = 1, total_count = 4, count_V = Some [2, 1, 1]\<rparr>
        ''dinosaur'' = Inr (Finite (1 / 2))"
proof -
  let ?e1 = "\<lparr>vocab = example_vocab, alpha = 1, total_count = 2, count_V = Some [1, 1, 0]\<rparr>"
  let ?e2 = "\<lparr>vocab = example_vocab, alpha = 1, total_count = 4, count_V = Some [2, 1, 1]\<rparr>"
  have f1: "fit (init example_vocab 1) [''dinosaur'', ''trex''] = (Inr (), ?e1)"
    by (simp add: fit_def init_def example_vocab_def np_zeros_def vocab_size_def
        get_word_id_def)
  have f2: "fit (init example_vocab 1) example_word_list = (Inr (), ?e2)"
    by (simp add: fit_def init_def example_vocab_def example_word_list_def np_zeros_def
        vocab_size_def get_word_id_def)
  have a1: "alpha ?e1 = 1" and a2: "alpha ?e2 = 1"
    by simp_all
  have v: "vocab_list example_vocab = [''dinosaur'', ''trex'', ''stegosaurus'']"
    by (simp add: example_vocab_def)
  have 1: "predict_proba ?e1 ''dinosaur'' = Inl ValueError"
    using alpha_one_boundary [OF f1 a1, of "''dinosaur''"] by (simp add: v)
  have 2: "predict_proba ?e2 ''dinosaur'' = Inr (Finite (1 / 2))"
    using alpha_one_boundary [OF f2 a2, of "''dinosaur''"]
    by (simp add: v example_word_list_def)
  show ?thesis
    using f1 f2 1 2 by (simp add: v example_word_list_def)
qed

text \<open>
  C5 (as amended). For a word that is not in the vocabulary, \<open>predict_proba\<close> raises
  \<open>KeyError\<close> (the spec's UnknownWord) in every state in which \<open>count_V\<close> has been
  set by \<open>fit\<close> and the MAP existence condition holds.
\<close>

theorem unknown_word_KeyError:
  assumes "w \<notin> set (vocab_list (vocab e))" and "count_V e = Some cs" and "map_exists e cs"
  shows "predict_proba e w = Inl KeyError"
  using assms by (simp add: predict_proba_def get_word_id_notin)

theorem unknown_word_KeyError_witness:
  "''never_seen-before'' \<notin> set (vocab_list (vocab example_fitted))
   \<and> count_V example_fitted = Some [2, 1, 1]
   \<and> map_exists example_fitted [2, 1, 1]
   \<and> predict_proba example_fitted ''never_seen-before'' = Inl KeyError"
proof -
  have h: "''never_seen-before'' \<notin> set (vocab_list (vocab example_fitted))"
    by (simp add: example_fitted_def example_vocab_def)
  show ?thesis
    using h example_count_V example_map_exists
      unknown_word_KeyError [OF h example_count_V example_map_exists]
    by simp
qed

text \<open>
  C5 (as stated) fails when the existence condition fails: the check comes first, so an
  unknown word gets \<open>ValueError\<close>, not \<open>KeyError\<close>.
\<close>

theorem unknown_word_counterexample:
  "''never_seen-before'' \<notin> set (vocab_list example_vocab)
   \<and> fit (init example_vocab 1) [''dinosaur'', ''trex'']
     = (Inr (), \<lparr>vocab = example_vocab, alpha = 1, total_count = 2, count_V = Some [1, 1, 0]\<rparr>)
   \<and> predict_proba \<lparr>vocab = example_vocab, alpha = 1, total_count = 2, count_V = Some [1, 1, 0]\<rparr>
        ''never_seen-before'' = Inl ValueError"
  by (simp add: fit_def init_def example_vocab_def np_zeros_def
        vocab_size_def get_word_id_def predict_proba_def map_exists_def all_vocab_seen_def)

text \<open>
  C9 (as amended). On an estimator fitted successfully, when the MAP existence condition
  holds and \<open>alpha > 0\<close> (in particular when \<open>alpha \<ge> 1\<close>, the range the class
  documents), \<open>predict_proba\<close> of a vocabulary word returns a number in \<open>[0, 1]\<close>.
\<close>

theorem predict_proba_in_unit_interval:
  assumes "fit e0 L = (Inr (), e)" and "count_V e = Some cs" and "map_exists e cs"
    and "0 < alpha e" and "w \<in> set (vocab_list (vocab e))"
  shows "\<exists>p. predict_proba e w = Inr (Finite p) \<and> 0 \<le> p \<and> p \<le> 1"
proof -
  have "cs = counts (vocab e) L"
    using fitted_state(4) [OF assms(1)] assms(2) by simp
  then have "map_exists e (counts (vocab e) L)"
    using assms(3) by simp
  from predict_proba_fitted_bounds [OF assms(1) this assms(4,5)]
  obtain p where "predict_proba e w = Inr (Finite p)" "0 < p" "p \<le> 1"
    by blast
  then have "predict_proba e w = Inr (Finite p) \<and> 0 \<le> p \<and> p \<le> 1"
    by simp
  then show ?thesis ..
qed

theorem predict_proba_in_unit_interval_witness:
  "fit (init example_vocab 2) example_word_list = (Inr (), example_fitted)
   \<and> count_V example_fitted = Some [2, 1, 1]
   \<and> map_exists example_fitted [2, 1, 1]
   \<and> 0 < alpha example_fitted
   \<and> ''dinosaur'' \<in> set (vocab_list (vocab example_fitted))
   \<and> (\<exists>p. predict_proba example_fitted ''dinosaur'' = Inr (Finite p) \<and> 0 \<le> p \<and> p \<le> 1)"
proof -
  have a: "0 < alpha example_fitted"
    by (simp add: example_fitted_def)
  show ?thesis
    using example_fit example_count_V example_map_exists a example_dinosaur
      predict_proba_in_unit_interval
        [OF example_fit example_count_V example_map_exists a example_dinosaur]
    by simp
qed

text \<open>
  C9 (as stated) fails for an \<open>alpha\<close> below zero, which the constructor accepts: with
  \<open>alpha = -1\<close> and counts \<open>[5, 1, 1]\<close> every word has been seen, and the values
  returned for \<open>trex\<close> and \<open>dinosaur\<close> are \<open>-1\<close> and \<open>3\<close>.
\<close>

theorem predict_proba_in_unit_interval_counterexample:
  "fit (init example_vocab (- 1))
       [''dinosaur'', ''dinosaur'', ''dinosaur'', ''dinosaur'', ''dinosaur'', ''trex'',
        ''stegosaurus'']
     = (Inr (), \<lparr>vocab = example_vocab, alpha = - 1, total_count = 7,
                 count_V = Some [5, 1, 1]\<rparr>)
   \<and> map_exists \<lparr>vocab = example_vocab, alpha = - 1, total_count = 7,
                 count_V = Some [5, 1, 1]\<rparr> [5, 1, 1]
   \<and> predict_proba \<lparr>vocab = example_vocab, alpha = - 1, total_count = 7,
                 count_V = Some [5, 1, 1]\<rparr> ''trex'' = Inr (Finite (- 1))
   \<and> predict_proba \<lparr>vocab = example_vocab, alpha = - 1, total_count = 7,
                 count_V = Some [5, 1, 1]\<rparr> ''dinosaur'' = Inr (Finite 3)"
  by (simp add: fit_def init_def example_vocab_def np_zeros_def
        vocab_size_def get_word_id_def predict_proba_def map_exists_def all_vocab_seen_def)

text \<open>
  C3 (as amended). On an estimator fitted successfully, over a vocabulary of distinct
  words, when the MAP existence condition holds and the denominator
  \<open>total_count + vocab.size * (alpha - 1)\<close> is not zero (as it is whenever
  \<open>alpha \<ge> 1\<close> and the vocabulary is not empty), the values of \<open>predict_proba\<close> over
  all vocabulary words add up to exactly 1.
\<close>

theorem proba_sum_is_one:
  assumes "fit e0 L = (Inr (), e)" and "count_V e = Some cs" and "map_exists e cs"
    and "distinct (vocab_list (vocab e))" and "normalizer e \<noteq> 0"
  shows "proba_sum e = Inr (Finite 1)"
proof -
  let ?vl = "vocab_list (vocab e)"
  let ?n = "vocab_size (vocab e)"
  let ?N = "\<lambda>j. counts (vocab e) L ! j + alpha e - 1"
  define f where "f w = ?N (the (word_index ?vl w)) / normalizer e" for w
  have cs: "cs = counts (vocab e) L"
    using fitted_state(4) [OF assms(1)] assms(2) by simp
  have m: "map_exists e (counts (vocab e) L)"
    using assms(3) by (simp add: cs)
  have "predict_proba e w = Inr (Finite (f w))" if w: "w \<in> set ?vl" for w
  proof -
    obtain i where i: "get_word_id (vocab e) w = Inr i"
      using get_word_id_in [OF w] by auto
    then have "word_index ?vl w = Some i"
      by (auto simp: get_word_id_def split: option.splits)
    then show ?thesis
      using predict_proba_fitted [OF assms(1) m i] assms(5) by (simp add: f_def)
  qed
  then have "proba_sum e = Inr (Finite (0 + sum_list (map f ?vl)))"
    unfolding proba_sum_def by (rule proba_sum_loop_finite)
  moreover have "sum_list (map f ?vl) = 1"
  proof -
    have "map f ?vl = map f (map ((!) ?vl) [0..<length ?vl])"
      by (simp only: map_nth)
    also have "\<dots> = map (\<lambda>i. f (?vl ! i)) [0..<length ?vl]"
      by (simp only: map_map o_def)
    also have "\<dots> = map (\<lambda>i. ?N i / normalizer e) [0..<length ?vl]"
      using assms(4) by (simp add: f_def word_index_distinct)
    finally have "sum_list (map f ?vl) = (\<Sum>i = 0..<?n. ?N i / normalizer e)"
      by (simp add: interv_sum_list_conv_sum_set_nat vocab_size_def)
    also have "\<dots> = (\<Sum>i = 0..<?n. ?N i) / normalizer e"
      by (simp add: sum_divide_distrib)
    also have "\<dots> = 1"
      using normalizer_fitted [OF assms(1)] assms(5) by simp
    finally show ?thesis .
  qed
  ultimately show ?thesis by simp
qed

theorem proba_sum_is_one_witness:
  "fit (init example_vocab 2) example_word_list = (Inr (), example_fitted)
   \<and> count_V example_fitted = Some [2, 1, 1]
   \<and> map_exists example_fitted [2, 1, 1]
   \<and> distinct (vocab_list (vocab example_fitted))
   \<and> normalizer example_fitted \<noteq> 0
   \<and> proba_sum example_fitted = Inr (Finite 1)"
proof -
  have d: "distinct (vocab_list (vocab example_fitted))"
    by (simp add: example_fitted_def example_vocab_def)
  have n: "normalizer example_fitted \<noteq> 0"
    by (simp add: example_fitted_def example_vocab_def normalizer_def vocab_size_def)
  show ?thesis
    using example_fit example_count_V example_map_exists d n
      proba_sum_is_one [OF example_fit example_count_V example_map_exists d n]
    by simp
qed

text \<open>
  C3 (as stated) fails when that denominator is zero. With \<open>alpha = 0\<close> and the single
  vocabulary word seen once, the existence condition holds and the only probability is
  \<open>0/0\<close>, a NaN. With an empty vocabulary (and the default \<open>alpha = 2\<close>) the condition
  holds too and the sum, over no word, is 0.
\<close>

theorem proba_sum_counterexample:
  "fit (init \<lparr>vocab_list = [''dinosaur'']\<rparr> 0) [''dinosaur'']
     = (Inr (), \<lparr>vocab = \<lparr>vocab_list = [''dinosaur'']\<rparr>, alpha = 0, total_count = 1,
                 count_V = Some [1]\<rparr>)
   \<and> map_exists \<lparr>vocab = \<lparr>vocab_list = [''dinosaur'']\<rparr>, alpha = 0, total_count = 1,
                 count_V = Some [1]\<rparr> [1]
   \<and> proba_sum \<lparr>vocab = \<lparr>vocab_list = [''dinosaur'']\<rparr>, alpha = 0, total_count = 1,
                 count_V = Some [1]\<rparr> = Inr NaN
   \<and> fit (init \<lparr>vocab_list = []\<rparr> 2) []
     = (Inr (), \<lparr>vocab = \<lparr>vocab_list = []\<rparr>, alpha = 2, total_count = 0, count_V = Some []\<rparr>)
   \<and> map_exists \<lparr>vocab = \<lparr>vocab_list = []\<rparr>, alpha = 2, total_count = 0, count_V = Some []\<rparr> []
   \<and> proba_sum \<lparr>vocab = \<lparr>vocab_list = []\<rparr>, alpha = 2, total_count = 0, count_V = Some []\<rparr>
       = Inr (Finite 0)"
  by (simp add: fit_def init_def np_zeros_def proba_sum_def
        vocab_size_def get_word_id_def predict_proba_def map_exists_def all_vocab_seen_def)


section \<open>Properties of \<open>score\<close>\<close>

text \<open>
  C6 (as amended). \<open>score\<close> applied to the empty word list raises Python's
  \<open>ZeroDivisionError\<close>, whatever the state of the estimator: the source has no
  dedicated error for an empty input.
\<close>

theorem score_empty_raises_ZeroDivisionError:
  "score e [] = Inl ZeroDivisionError"
  by (simp add: score_def)

text \<open>
  C6 (as stated) fails: on a freshly constructed estimator over a three-word vocabulary,
  \<open>score []\<close> ends in the arithmetic division-by-zero error.
\<close>

theorem score_empty_counterexample:
  "score (init \<lparr>vocab_list = [''dinosaur'', ''trex'', ''stegosaurus'']\<rparr> 2) []
     = Inl ZeroDivisionError"
  by (simp add: score_def)

text \<open>
  The running total of \<open>score\<close>, a sum from the left starting at \<open>0.0\<close>, is the sum
  of the logarithms: the floating-point addition of this model is associative.
\<close>

lemma np_add_assoc: "np_add (np_add x y) z = np_add x (np_add y z)"
  by (cases x; cases y; cases z) simp_all

lemma np_add_zero_right: "np_add x (Finite 0) = x"
  by (cases x) simp_all

lemma np_add_zero_left: "np_add (Finite 0) x = x"
  by (cases x) simp_all

lemma foldl_np_add: "foldl np_add a xs = np_add a (np_sum xs)"
  by (induction xs arbitrary: a) (simp_all add: np_sum_def np_add_zero_right np_add_assoc)

lemma score_loop_Inr:
  "map (predict_proba e) ws = map Inr ps \<Longrightarrow>
     score_loop e acc ws = Inr (foldl np_add acc (map np_log ps))"
proof (induction ws arbitrary: acc ps)
  case Nil
  then show ?case by simp
next
  case (Cons w ws)
  then obtain p ps' where "ps = p # ps'" "predict_proba e w = Inr p"
    "map (predict_proba e) ws = map Inr ps'"
    by (cases ps) auto
  then show ?case
    using Cons.IH [of ps'] by simp
qed

lemma score_mean_log:
  assumes "map (predict_proba e) L = map Inr ps" and "L \<noteq> []"
  shows "score e L = Inr (mean_log ps)"
proof -
  have "length ps = length L"
    using assms(1) map_eq_imp_length_eq by fastforce
  then show ?thesis
    using score_loop_Inr [OF assms(1), of "Finite 0"] assms(2)
    by (simp add: score_def mean_log_def foldl_np_add np_add_zero_left)
qed

lemma np_sum_log_Finite:
  "\<forall>q\<in>set qs. 0 < q \<Longrightarrow> np_sum (map (np_log \<circ> Finite) qs) = Finite (sum_list (map ln qs))"
  by (induction qs) (simp_all add: np_sum_def)

text \<open>
  C7. On an estimator fitted successfully for which the MAP existence condition holds,
  and for a non-empty list \<open>L\<close> of vocabulary words, every call of \<open>predict_proba\<close>
  on a word of \<open>L\<close> returns a value, and \<open>score L\<close> is the arithmetic mean of the
  logarithms of these values: their sum divided by the length of \<open>L\<close>. When
  \<open>alpha > 0\<close> all of them are reals in \<open>(0, 1]\<close> and the score is the real mean of
  their natural logarithms.
\<close>

theorem score_is_mean_log_proba:
  assumes "fit e0 L0 = (Inr (), e)" and "count_V e = Some cs" and "map_exists e cs"
    and "L \<noteq> []" and "set L \<subseteq> set (vocab_list (vocab e))"
  shows "\<exists>ps. map (predict_proba e) L = map Inr ps \<and> score e L = Inr (mean_log ps)
           \<and> (0 < alpha e \<longrightarrow>
                (\<exists>qs. ps = map Finite qs \<and> (\<forall>q\<in>set qs. 0 < q \<and> q \<le> 1)
                   \<and> score e L = Inr (Finite (sum_list (map ln qs) / real (length L)))))"
proof -
  have cs: "cs = counts (vocab e) L0"
    using fitted_state(4) [OF assms(1)] assms(2) by simp
  have m: "map_exists e (counts (vocab e) L0)"
    using assms(3) by (simp add: cs)
  define ps where "ps = map (\<lambda>w. case predict_proba e w of Inr p \<Rightarrow> p | Inl err \<Rightarrow> NaN) L"
  have ok: "\<exists>p. predict_proba e w = Inr p" if w: "w \<in> set L" for w
  proof -
    from w assms(5) obtain i where "get_word_id (vocab e) w = Inr i"
      using get_word_id_in [of w "vocab e"] by auto
    from predict_proba_fitted [OF assms(1) m this] show ?thesis by blast
  qed
  have "predict_proba e w = Inr (case predict_proba e w of Inr p \<Rightarrow> p | Inl err \<Rightarrow> NaN)"
    if w: "w \<in> set L" for w
    using ok [OF w] by auto
  then have ps: "map (predict_proba e) L = map Inr ps"
    by (simp add: ps_def)
  have sc: "score e L = Inr (mean_log ps)"
    using ps assms(4) by (rule score_mean_log)
  have real: "\<exists>qs. ps = map Finite qs \<and> (\<forall>q\<in>set qs. 0 < q \<and> q \<le> 1)
                   \<and> score e L = Inr (Finite (sum_list (map ln qs) / real (length L)))"
    if a: "0 < alpha e"
  proof -
    have fin: "\<exists>p. predict_proba e w = Inr (Finite p) \<and> 0 < p \<and> p \<le> 1" if w: "w \<in> set L" for w
      using predict_proba_fitted_bounds [OF assms(1) m a] w assms(5) by auto
    define qs where
      "qs = map (\<lambda>w. case predict_proba e w of Inr (Finite p) \<Rightarrow> p | _ \<Rightarrow> 0) L"
    have el: "(case predict_proba e w of Inr p \<Rightarrow> p | Inl err \<Rightarrow> NaN)
          = Finite (case predict_proba e w of Inr (Finite p) \<Rightarrow> p | _ \<Rightarrow> 0)
        \<and> 0 < (case predict_proba e w of Inr (Finite p) \<Rightarrow> p | _ \<Rightarrow> 0)
        \<and> (case predict_proba e w of Inr (Finite p) \<Rightarrow> p | _ \<Rightarrow> 0) \<le> 1"
      if w: "w \<in> set L" for w
      using fin [OF w] by auto
    have 1: "ps = map Finite qs"
      using el by (simp add: ps_def qs_def)
    have 2: "\<forall>q\<in>set qs. 0 < q \<and> q \<le> 1"
      using el by (simp add: qs_def)
    have "length qs = length L"
      by (simp add: qs_def)
    moreover have "0 < length L"
      using assms(4) by simp
    moreover have "np_sum (map (np_log \<circ> Finite) qs) = Finite (sum_list (map ln qs))"
      using 2 by (simp add: np_sum_log_Finite)
    ultimately have "mean_log ps = Finite (sum_list (map ln qs) / real (length L))"
      by (simp add: 1 mean_log_def)
    then show ?thesis
      using 1 2 sc by auto
  qed
  show ?thesis
    using ps sc real by blast
qed

theorem score_is_mean_log_proba_witness:
  "fit (init example_vocab 2) example_word_list = (Inr (), example_fitted)
   \<and> count_V example_fitted = Some [2, 1, 1]
   \<and> map_exists example_fitted [2, 1, 1]
   \<and> [''dinosaur'', ''trex''] \<noteq> []
   \<and> set [''dinosaur'', ''trex''] \<subseteq> set (vocab_list (vocab example_fitted))
   \<and> 0 < alpha example_fitted
   \<and> map (predict_proba example_fitted) [''dinosaur'', ''trex'']
       = map Inr [Finite (3 / 7), Finite (2 / 7)]
   \<and> score example_fitted [''dinosaur'', ''trex'']
       = Inr (Finite ((ln (3 / 7) + ln (2 / 7)) / 2))"
proof -
  have ne: "[''dinosaur'', ''trex''] \<noteq> []"
    by simp
  have sub: "set [''dinosaur'', ''trex''] \<subseteq> set (vocab_list (vocab example_fitted))"
    by (simp add: example_fitted_def example_vocab_def)
  have a: "0 < alpha example_fitted"
    by (simp add: example_fitted_def)
  have p: "map (predict_proba example_fitted) [''dinosaur'', ''trex'']
       = map Inr [Finite (3 / 7), Finite (2 / 7)]"
    by (simp add: example_fitted_def example_vocab_def predict_proba_def map_exists_def
        get_word_id_def vocab_size_def)
  from score_is_mean_log_proba [OF example_fit example_count_V example_map_exists ne sub] p
  have "score example_fitted [''dinosaur'', ''trex''] = Inr (mean_log [Finite (3 / 7), Finite (2 / 7)])"
    by auto
  then have "score example_fitted [''dinosaur'', ''trex'']
       = Inr (Finite ((ln (3 / 7) + ln (2 / 7)) / 2))"
    by (simp add: mean_log_def np_sum_def)
  then show ?thesis
    using example_fit example_count_V example_map_exists sub a p by simp
qed

end
